theory Spec2Isabelle
  imports Main "HOL-Library.Sublist" "HOL-Library.Mapping" "HOL-Library.AList_Mapping"
begin

section \<open>Go library functions used by the indexer\<close>

text \<open>
  \<open>strings.Contains(s, substr)\<close>: \<open>substr\<close> occurs in \<open>s\<close> as a contiguous run of bytes.
\<close>

definition strings_Contains :: "string \<Rightarrow> string \<Rightarrow> bool" where
  "strings_Contains s substr = sublist substr s"

text \<open>\<open>strings.Join(elems, sep)\<close>.\<close>

fun strings_Join :: "string list \<Rightarrow> string \<Rightarrow> string" where
  "strings_Join [] sep = []"
| "strings_Join [x] sep = x"
| "strings_Join (x # y # ys) sep = x @ sep @ strings_Join (y # ys) sep"

text \<open>
  \<open>fmt.Sprintf\<close> for a format whose only verbs are \<open>%s\<close>, applied to string operands.
  The format is given as the literal pieces between the verbs. A verb with no operand
  left prints \<open>%!s(MISSING)\<close>; operands left over are reported after the text as
  \<open>%!(EXTRA string=a, string=b)\<close>.
\<close>

fun Sprintf_s :: "string list \<Rightarrow> string list \<Rightarrow> string" where
  "Sprintf_s [] as = []"
| "Sprintf_s [p] [] = p"
| "Sprintf_s [p] (a # as) =
     p @ ''%!(EXTRA '' @ strings_Join (map (\<lambda>x. ''string='' @ x) (a # as)) '', '' @ '')''"
| "Sprintf_s (p # q # ps) [] = p @ ''%!s(MISSING)'' @ Sprintf_s (q # ps) []"
| "Sprintf_s (p # q # ps) (a # as) = p @ a @ Sprintf_s (q # ps) as"

definition sq :: char where
  "sq = CHR 0x27"

text \<open>
  The pieces of the formats \<open>('%s','%s','%s')\<close> (\<open>sep\<close> a comma) and
  \<open>('%s', '%s', '%s')\<close> (\<open>sep\<close> a comma and a space), with \<open>n\<close> verbs.
\<close>

definition tuple_format :: "string \<Rightarrow> nat \<Rightarrow> string list" where
  "tuple_format sep n =
     (''('' @ [sq]) # replicate (n - 1) ([sq] @ sep @ [sq]) @ [[sq] @ '')'']"

section \<open>The batch engine: \<open>batchWithRetry\<close>\<close>

record batchItem =
  query :: string
  args :: "string list"
  action :: string
  uid :: string

text \<open>
  \<open>model.SyncError\<close> and the five error arrays of \<open>model.SyncResponse\<close> that
  \<open>sendBatch\<close> writes to.
\<close>

record SyncError =
  ResourceUID :: string
  Message :: string

record SyncResponse =
  AddErrors :: "SyncError list"
  UpdateErrors :: "SyncError list"
  DeleteErrors :: "SyncError list"
  AddEdgeErrors :: "SyncError list"
  DeleteEdgeErrors :: "SyncError list"

record DAO =
  batchSize :: int

text \<open>
  The engine's state. \<open>connError = None\<close> is Go's \<open>nil\<close>. The field \<open>dispatched\<close>
  holds, in order, the snapshots handed to a worker by \<open>go b.sendBatch(items)\<close>; each of
  them is later run by \<open>sendBatch\<close>.
\<close>

record batchWithRetry =
  connError :: "string option"
  dao :: DAO
  edgeInsertQ :: "string list list"
  items :: "batchItem list"
  resourceInsertQ :: "string list list"
  syncResponse :: SyncResponse
  dispatched :: "batchItem list list"

definition NewDAO :: DAO where
  "NewDAO = \<lparr> batchSize = 500 \<rparr>"

definition NewBatchWithRetry :: "DAO \<Rightarrow> SyncResponse \<Rightarrow> batchWithRetry" where
  "NewBatchWithRetry d r =
     \<lparr> connError = None, dao = d, edgeInsertQ = [], items = [], resourceInsertQ = [],
       syncResponse = r, dispatched = [] \<rparr>"

definition bulkItem :: "string \<Rightarrow> string \<Rightarrow> string list \<Rightarrow> string \<Rightarrow> string list list \<Rightarrow> batchItem" where
  "bulkItem table act fmt joinSep rows =
     \<lparr> query = ''INSERT INTO search.'' @ table @ '' VALUES ''
                 @ strings_Join (map (Sprintf_s fmt) rows) joinSep @ '';'',
       args = [], action = act, uid = [] \<rparr>"

text \<open>The snapshot step shared by \<open>Queue\<close> and \<open>flush\<close>: hand the pending items to a worker.\<close>

definition dispatch :: "batchWithRetry \<Rightarrow> batchWithRetry" where
  "dispatch b = b\<lparr> dispatched := dispatched b @ [items b], items := [] \<rparr>"

definition Queue :: "batchWithRetry \<Rightarrow> batchItem \<Rightarrow> string option \<times> batchWithRetry" where
  "Queue b item =
     (if connError b \<noteq> None then (connError b, b)
      else
        let b1 =
          (if action item = ''addResource'' then
             let b' = b\<lparr> resourceInsertQ := resourceInsertQ b @ [args item] \<rparr> in
             if int (length (resourceInsertQ b')) \<ge> batchSize (dao b') then
               b'\<lparr> items := items b' @
                      [bulkItem ''resources'' ''bulkResources'' (tuple_format '','' 3) '', ''
                         (resourceInsertQ b')],
                    resourceInsertQ := [] \<rparr>
             else b'
           else if action item = ''addEdge'' then
             let b' = b\<lparr> edgeInsertQ := edgeInsertQ b @ [args item] \<rparr> in
             if int (length (edgeInsertQ b')) \<ge> batchSize (dao b') then
               b'\<lparr> items := items b' @
                      [bulkItem ''edges'' ''bulkInsertEdges'' (tuple_format '','' 6) '',''
                         (edgeInsertQ b')],
                    edgeInsertQ := [] \<rparr>
             else b'
           else b\<lparr> items := items b @ [item] \<rparr>)
        in (None, if int (length (items b1)) \<ge> batchSize (dao b1) then dispatch b1 else b1))"

definition flush :: "batchWithRetry \<Rightarrow> batchWithRetry" where
  "flush b =
     (let b1 =
        (if length (resourceInsertQ b) > 0 then
           b\<lparr> items := items b @
                  [bulkItem ''resources'' ''bulkResources'' (tuple_format '', '' 3) '', ''
                     (resourceInsertQ b)],
                resourceInsertQ := [] \<rparr>
         else b);
          b2 =
        (if length (edgeInsertQ b1) > 0 then
           b1\<lparr> items := items b1 @
                   [bulkItem ''edges'' ''bulkInsertEdges'' (tuple_format '', '' 6) '',''
                      (edgeInsertQ b1)],
                 edgeInsertQ := [] \<rparr>
         else b1)
      in if length (items b2) > 0 then dispatch b2 else b2)"

subsection \<open>\<open>sendBatch\<close>\<close>

text \<open>
  The driver. \<open>pool.SendBatch\<close> followed by \<open>br.Exec()\<close> and \<open>br.Close()\<close> is one
  round trip: from the statements sent and the database's state \<open>'d\<close> it gives
  \<open>execErr\<close>, \<open>closeErr\<close> (\<open>None\<close> is \<open>nil\<close>) and the database's next state.
\<close>

type_synonym 'd SendBatch = "batchItem list \<Rightarrow> 'd \<Rightarrow> (string option \<times> string option) \<times> 'd"

text \<open>
  How a call of \<open>sendBatch\<close> ends: it returns its \<open>error\<close>, or it panics on the
  dereference of a nil \<open>*[]model.SyncError\<close>.
\<close>

datatype outcome = Returned "string option" | NilPointerDereference

text \<open>The target of \<open>errorArray\<close>; \<open>None\<close> is the nil pointer left by the \<open>default\<close> case.\<close>

datatype errorArrayRef =
  AddErrorsRef | UpdateErrorsRef | DeleteErrorsRef | AddEdgeErrorsRef | DeleteEdgeErrorsRef

definition errorArray :: "string \<Rightarrow> errorArrayRef option" where
  "errorArray a =
     (if a = ''addResource'' then Some AddErrorsRef
      else if a = ''updateResource'' then Some UpdateErrorsRef
      else if a = ''deleteResource'' then Some DeleteErrorsRef
      else if a = ''addEdge'' then Some AddEdgeErrorsRef
      else if a = ''deleteEdge'' then Some DeleteEdgeErrorsRef
      else None)"

fun deref :: "errorArrayRef \<Rightarrow> SyncResponse \<Rightarrow> SyncError list" where
  "deref AddErrorsRef r = AddErrors r"
| "deref UpdateErrorsRef r = UpdateErrors r"
| "deref DeleteErrorsRef r = DeleteErrors r"
| "deref AddEdgeErrorsRef r = AddEdgeErrors r"
| "deref DeleteEdgeErrorsRef r = DeleteEdgeErrors r"

fun appendError :: "errorArrayRef \<Rightarrow> SyncError \<Rightarrow> SyncResponse \<Rightarrow> SyncResponse" where
  "appendError AddErrorsRef e r = r\<lparr> AddErrors := AddErrors r @ [e] \<rparr>"
| "appendError UpdateErrorsRef e r = r\<lparr> UpdateErrors := UpdateErrors r @ [e] \<rparr>"
| "appendError DeleteErrorsRef e r = r\<lparr> DeleteErrors := DeleteErrors r @ [e] \<rparr>"
| "appendError AddEdgeErrorsRef e r = r\<lparr> AddEdgeErrors := AddEdgeErrors r @ [e] \<rparr>"
| "appendError DeleteEdgeErrorsRef e r = r\<lparr> DeleteEdgeErrors := DeleteEdgeErrors r @ [e] \<rparr>"

definition connectionFatal :: "string \<Rightarrow> bool" where
  "connectionFatal e \<longleftrightarrow>
     strings_Contains e ''unexpected EOF'' \<or> strings_Contains e ''failed to connect''"

definition rowError :: "batchItem \<Rightarrow> SyncError" where
  "rowError errorItem =
     \<lparr> ResourceUID = uid errorItem,
       Message = ''Resource generated an error while updating the database.'' \<rparr>"

text \<open>
  \<open>sendBatch\<close> calls itself on the two halves of a failed snapshot. On an empty snapshot
  whose execution fails both halves are empty again and the recursion never ends, so the
  model counts the depth of the recursion down: \<open>None\<close> is a call that has not returned
  within \<open>fuel\<close> nested calls. A panic in a half ends the whole call.
\<close>

fun sendBatch ::
  "'d SendBatch \<Rightarrow> nat \<Rightarrow> batchItem list \<Rightarrow> batchWithRetry \<times> 'd
     \<Rightarrow> (outcome \<times> batchWithRetry \<times> 'd) option" where
  "sendBatch pool 0 its (b, d) = None"
| "sendBatch pool (Suc fuel) its (b, d) =
     (case pool its d of ((execErr, closeErr), d1) \<Rightarrow>
       (case closeErr of
          Some ce \<Rightarrow>
            if connectionFatal ce
            then Some (Returned (Some ''Failed to connect to database.''),
                       b\<lparr> connError := Some ce \<rparr>, d1)
            else Some (Returned (Some ce), b, d1)
        | None \<Rightarrow>
            if execErr \<noteq> None \<and> length its = 1 then
              (let errorItem = hd its in
               case errorArray (action errorItem) of
                 None \<Rightarrow> Some (NilPointerDereference, b, d1)
               | Some ref \<Rightarrow>
                   Some (Returned None,
                         b\<lparr> syncResponse := appendError ref (rowError errorItem) (syncResponse b) \<rparr>,
                         d1))
            else if execErr \<noteq> None then
              (case sendBatch pool fuel (take (length its div 2) its) (b, d1) of
                 None \<Rightarrow> None
               | Some (NilPointerDereference, s1) \<Rightarrow> Some (NilPointerDereference, s1)
               | Some (Returned err1, s1) \<Rightarrow>
                   (case sendBatch pool fuel (drop (length its div 2) its) s1 of
                      None \<Rightarrow> None
                    | Some (NilPointerDereference, s2) \<Rightarrow> Some (NilPointerDereference, s2)
                    | Some (Returned err2, s2) \<Rightarrow>
                        if err1 \<noteq> None \<and> err2 \<noteq> None then Some (Returned None, s2)
                        else Some (Returned execErr, s2)))
            else Some (Returned execErr, b, d1)))"

section \<open>The request limiter\<close>

text \<open>
  \<open>requestTracker\<close> is a package-level \<open>map[string]time.Time\<close>; a time is a number of
  ticks. \<open>len(requestTracker)\<close> is \<open>Mapping.size\<close>.
\<close>

type_synonym requestTracker = "(string, nat) mapping"

text \<open>
  The wrapped handler \<open>next.ServeHTTP(w, r)\<close> either returns, having written its
  response \<open>'r\<close> (a success or an error response), or panics. The tracker is shared by all
  requests: the handler is given the tracker as it is when it starts and gives back the
  tracker as it is when it exits, with whatever other requests have done to it meanwhile.
\<close>

datatype 'r handlerExit = Return 'r | Panic

text \<open>
  What the middleware does with a request: \<open>HttpError msg code\<close> is the call
  \<open>http.Error(w, msg, code)\<close>, which answers with status \<open>code\<close> and the text \<open>msg\<close>
  (net/http ends the text with a newline); \<open>Served r\<close> is the handler's own response;
  \<open>Panicked\<close> is the handler's panic, which passes through the middleware after its
  deferred function has run.
\<close>

datatype 'r reply = HttpError string nat | Served 'r | Panicked

definition StatusTooManyRequests :: nat where
  "StatusTooManyRequests = 429"

definition requestLimiterMiddleware ::
  "int \<Rightarrow> (requestTracker \<Rightarrow> 'r handlerExit \<times> requestTracker) \<Rightarrow> nat \<Rightarrow> string
     \<Rightarrow> requestTracker \<Rightarrow> 'r reply \<times> requestTracker" where
  "requestLimiterMiddleware RequestLimit next now clusterName requestTracker =
     (let requestCount = int (Mapping.size requestTracker);
          foundClusterProcessing = (Mapping.lookup requestTracker clusterName \<noteq> None)
      in
        if foundClusterProcessing then
          (HttpError ''A previous request from this cluster is processing, retry later.''
             StatusTooManyRequests, requestTracker)
        else if requestCount \<ge> RequestLimit \<and> clusterName \<noteq> ''local-cluster'' then
          (HttpError ''Indexer has too many pending requests, retry later.''
             StatusTooManyRequests, requestTracker)
        else
          (case next (Mapping.update clusterName now requestTracker) of
             (Return r, t) \<Rightarrow> (Served r, Mapping.delete clusterName t)
           | (Panic, t) \<Rightarrow> (Panicked, Mapping.delete clusterName t)))"

section \<open>Cluster deletion\<close>

text \<open>
  A statement sent to the database. \<open>DeleteWhere t c a\<close> is the statement
  \<open>DELETE FROM search.t WHERE c = a\<close>, whether written out with the parameter \<open>$1\<close> or
  rendered by goqu.
\<close>

datatype stmt = DeleteWhere string string string

datatype call = BeginTx | TxExec stmt | TxCommit | TxRollback | PoolExec stmt

text \<open>What the program does to the outside: a driver call with the error it got, or a sleep in ms.\<close>

datatype event = Call call "string option" | Sleep int

text \<open>
  The world of the cluster lifecycle code: \<open>script\<close> holds the errors (\<open>None\<close> is \<open>nil\<close>)
  that the next driver calls will return, in order, and once it is used up every call
  succeeds; \<open>log\<close> records the driver calls and sleeps made so far;
  \<open>clustersCache\<close> is the cluster cache.
\<close>

record 'v world =
  script :: "string option list"
  log :: "event list"
  clustersCache :: "(string, 'v) mapping"

definition invoke :: "call \<Rightarrow> 'v world \<Rightarrow> string option \<times> 'v world" where
  "invoke c w =
     (case script w of
        [] \<Rightarrow> (None, w\<lparr> log := log w @ [Call c None] \<rparr>)
      | r # rs \<Rightarrow> (r, w\<lparr> script := rs, log := log w @ [Call c r] \<rparr>))"

definition time_Sleep :: "int \<Rightarrow> 'v world \<Rightarrow> 'v world" where
  "time_Sleep ms w = w\<lparr> log := log w @ [Sleep ms] \<rparr>"

text \<open>
  Modelled from the spec: the cluster cache's \<open>ReadClustersCache\<close>, \<open>UpdateClustersCache\<close>
  and \<open>DeleteClustersCache\<close> are not among the sources; the spec describes a process-wide
  mapping from cluster UID to properties with the operations Read, Update and Delete.
\<close>

definition ReadClustersCache :: "string \<Rightarrow> (string, 'v) mapping \<Rightarrow> 'v option" where
  "ReadClustersCache key c = Mapping.lookup c key"


definition DeleteClustersCache :: "string \<Rightarrow> (string, 'v) mapping \<Rightarrow> (string, 'v) mapping" where
  "DeleteClustersCache key c = Mapping.delete key c"

text \<open>\<open>checkErrorAndRollback\<close> logs the error and calls \<open>tx.Rollback\<close>, whose own error is only logged.\<close>

definition checkErrorAndRollback :: "'v world \<Rightarrow> 'v world" where
  "checkErrorAndRollback w = snd (invoke TxRollback w)"

text \<open>
  \<open>goquDelete\<close> has goqu render the statement; \<open>toSQL\<close> is the error that goqu's \<open>ToSQL\<close>
  reports for it (\<open>None\<close> is \<open>nil\<close>).
\<close>

definition goquDelete ::
  "(stmt \<Rightarrow> string option) \<Rightarrow> string \<Rightarrow> string \<Rightarrow> string \<Rightarrow> stmt \<times> string option" where
  "goquDelete toSQL tableName columnName arg =
     (DeleteWhere tableName columnName arg, toSQL (DeleteWhere tableName columnName arg))"

subsection \<open>The transaction of the earlier version (\<open>DeleteClusterTxn\<close> with three statements)\<close>

definition DeleteClusterTxn_three :: "string \<Rightarrow> 'v world \<Rightarrow> string option \<times> 'v world" where
  "DeleteClusterTxn_three clusterName w =
     (let clusterUID = ''cluster__'' @ clusterName in
      case invoke BeginTx w of
        (Some txErr, w1) \<Rightarrow> (Some txErr, w1)
      | (None, w1) \<Rightarrow>
         (case invoke (TxExec (DeleteWhere ''resources'' ''cluster'' clusterName)) w1 of
            (Some err, w2) \<Rightarrow> (Some err, checkErrorAndRollback w2)
          | (None, w2) \<Rightarrow>
             (case invoke (TxExec (DeleteWhere ''edges'' ''cluster'' clusterName)) w2 of
                (Some err, w3) \<Rightarrow> (Some err, checkErrorAndRollback w3)
              | (None, w3) \<Rightarrow>
                 (case invoke (TxExec (DeleteWhere ''resources'' ''uid'' clusterUID)) w3 of
                    (Some err, w4) \<Rightarrow>
                      (Some err, snd (invoke TxCommit (checkErrorAndRollback w4)))
                  | (None, w4) \<Rightarrow>
                     (case invoke TxCommit w4 of
                        (Some err, w5) \<Rightarrow> (Some err, checkErrorAndRollback w5)
                      | (None, w5) \<Rightarrow> (None, w5))))))"

subsection \<open>The current version\<close>

definition DeleteClusterResourcesTxn ::
  "(stmt \<Rightarrow> string option) \<Rightarrow> string \<Rightarrow> 'v world \<Rightarrow> string option \<times> 'v world" where
  "DeleteClusterResourcesTxn toSQL clusterName w =
     (case invoke BeginTx w of
        (Some txErr, w1) \<Rightarrow> (Some txErr, w1)
      | (None, w1) \<Rightarrow>
         (case goquDelete toSQL ''resources'' ''cluster'' clusterName of
            (sql, Some err) \<Rightarrow> (Some err, w1)
          | (sql, None) \<Rightarrow>
             (case invoke (TxExec sql) w1 of
                (Some err, w2) \<Rightarrow> (Some err, checkErrorAndRollback w2)
              | (None, w2) \<Rightarrow>
                 (case goquDelete toSQL ''edges'' ''cluster'' clusterName of
                    (sql', Some err) \<Rightarrow> (Some err, w2)
                  | (sql', None) \<Rightarrow>
                     (case invoke (TxExec sql') w2 of
                        (Some err, w3) \<Rightarrow> (Some err, checkErrorAndRollback w3)
                      | (None, w3) \<Rightarrow>
                         (case invoke TxCommit w3 of
                            (Some err, w4) \<Rightarrow> (Some err, checkErrorAndRollback w4)
                          | (None, w4) \<Rightarrow> (None, w4)))))))"

definition DeleteClusterTxn ::
  "(stmt \<Rightarrow> string option) \<Rightarrow> string \<Rightarrow> 'v world \<Rightarrow> string option \<times> 'v world" where
  "DeleteClusterTxn toSQL clusterUID w =
     (case goquDelete toSQL ''resources'' ''uid'' clusterUID of
        (sql, Some err) \<Rightarrow> (Some err, w)
      | (sql, None) \<Rightarrow> invoke (PoolExec sql) w)"

text \<open>
  The loop of \<open>deleteWithRetry\<close> has no bound on its attempts: \<open>None\<close> is a loop that has
  not ended within \<open>fuel\<close> attempts. \<open>retry\<close> and \<open>MaxBackoffMS\<close> are Go \<open>int\<close>s, compared
  as \<open>float64\<close>, which is exact below \<open>2^53\<close>.
\<close>

fun deleteWithRetry_loop ::
  "nat \<Rightarrow> (string \<Rightarrow> 'v world \<Rightarrow> string option \<times> 'v world) \<Rightarrow> int \<Rightarrow> string \<Rightarrow> int
     \<Rightarrow> 'v world \<Rightarrow> 'v world option" where
  "deleteWithRetry_loop 0 deleteFunction MaxBackoffMS clusterName retry w = None"
| "deleteWithRetry_loop (Suc fuel) deleteFunction MaxBackoffMS clusterName retry w =
     (case deleteFunction clusterName w of
        (Some err, w1) \<Rightarrow>
          (let waitMS = min (retry * 500) MaxBackoffMS in
           deleteWithRetry_loop fuel deleteFunction MaxBackoffMS clusterName (retry + 1)
             (time_Sleep waitMS w1))
      | (None, w1) \<Rightarrow> Some w1)"

definition deleteWithRetry ::
  "nat \<Rightarrow> (string \<Rightarrow> 'v world \<Rightarrow> string option \<times> 'v world) \<Rightarrow> int \<Rightarrow> string
     \<Rightarrow> 'v world \<Rightarrow> (string option \<times> 'v world) option" where
  "deleteWithRetry fuel deleteFunction MaxBackoffMS clusterName w =
     (case deleteWithRetry_loop fuel deleteFunction MaxBackoffMS clusterName 0 w of
        None \<Rightarrow> None
      | Some w' \<Rightarrow> Some (None, w'))"

definition DeleteClusterAndResources ::
  "nat \<Rightarrow> (stmt \<Rightarrow> string option) \<Rightarrow> int \<Rightarrow> string \<Rightarrow> bool \<Rightarrow> 'v world \<Rightarrow> 'v world option" where
  "DeleteClusterAndResources fuel toSQL MaxBackoffMS clusterName deleteClusterNode w =
     (let clusterUID = ''cluster__'' @ clusterName in
      case deleteWithRetry fuel (DeleteClusterResourcesTxn toSQL) MaxBackoffMS clusterName w of
        None \<Rightarrow> None
      | Some (err, w1) \<Rightarrow>
          if deleteClusterNode then
            (case deleteWithRetry fuel (DeleteClusterTxn toSQL) MaxBackoffMS clusterUID w1 of
               None \<Rightarrow> None
             | Some (err', w2) \<Rightarrow>
                 if err' = None
                 then Some (w2\<lparr> clustersCache := DeleteClustersCache clusterUID (clustersCache w2) \<rparr>)
                 else Some w2)
          else Some w1)"

text \<open>The projection of an informer object that the delete handler reads.\<close>

record clusterObject =
  GetKind :: string
  GetName :: string
  GetNamespace :: string

text \<open>
  Modelled from the spec: \<open>processClusterDelete\<close> is not among the sources (only its tests
  are). The spec: delete only on \<open>ManagedCluster\<close> and on \<open>ManagedClusterAddOn\<close> whose name
  is \<open>search-collector\<close>, never on \<open>ManagedClusterInfo\<close>; additionally delete the
  cluster node and evict the cache entry if and only if the object is a
  \<open>ManagedCluster\<close>. The cluster of an add-on is its namespace, as in the tests.
\<close>

definition processClusterDelete ::
  "nat \<Rightarrow> (stmt \<Rightarrow> string option) \<Rightarrow> int \<Rightarrow> clusterObject \<Rightarrow> 'v world \<Rightarrow> 'v world option" where
  "processClusterDelete fuel toSQL MaxBackoffMS obj w =
     (if GetKind obj = ''ManagedCluster'' then
        DeleteClusterAndResources fuel toSQL MaxBackoffMS (GetName obj) True w
      else if GetKind obj = ''ManagedClusterAddOn'' \<and> GetName obj = ''search-collector'' then
        DeleteClusterAndResources fuel toSQL MaxBackoffMS (GetNamespace obj) False w
      else Some w)"

section \<open>Cluster upsert\<close>


record 'v Resource =
  UID :: string
  Properties :: "(string \<times> 'v) list"











section \<open>Sample values\<close>

definition perRowActions :: "string set" where
  "perRowActions =
     {''addResource'', ''updateResource'', ''deleteResource'', ''addEdge'', ''deleteEdge''}"

text \<open>Every batch item emitted so far, in order: the dispatched snapshots, then the pending items.\<close>

definition emitted :: "batchWithRetry \<Rightarrow> batchItem list" where
  "emitted b = concat (dispatched b) @ items b"


definition emptyResponse :: SyncResponse where
  "emptyResponse =
     \<lparr> AddErrors = [], UpdateErrors = [], DeleteErrors = [], AddEdgeErrors = [],
       DeleteEdgeErrors = [] \<rparr>"

definition freshBatch :: batchWithRetry where
  "freshBatch = NewBatchWithRetry NewDAO emptyResponse"


definition sampleAdd :: batchItem where
  "sampleAdd =
     \<lparr> query = ''INSERT into search.resources values($1,$2,$3)'',
       args = [''uid-1'', ''cluster-a'', ''{}''], action = ''addResource'', uid = ''uid-1'' \<rparr>"

definition sampleAddEdge :: batchItem where
  "sampleAddEdge =
     \<lparr> query = ''INSERT into search.edges values($1,$2,$3,$4,$5,$6)'',
       args = [''uid-1'', ''Pod'', ''uid-2'', ''Node'', ''runsOn'', ''cluster-a''],
       action = ''addEdge'', uid = ''uid-1'' \<rparr>"

definition sampleUpdate :: batchItem where
  "sampleUpdate =
     \<lparr> query = ''UPDATE search.resources SET data=$2 WHERE uid=$1'',
       args = [''uid-2'', ''{}''], action = ''updateResource'', uid = ''uid-2'' \<rparr>"

definition sampleDelete :: batchItem where
  "sampleDelete =
     \<lparr> query = ''DELETE from search.resources WHERE uid IN ($1)'',
       args = [''uid-3''], action = ''deleteResource'', uid = ''uid-3'' \<rparr>"

definition sampleBulk :: batchItem where
  "sampleBulk =
     bulkItem ''resources'' ''bulkResources'' (tuple_format '', '' 3) '', '' [args sampleAdd]"

text \<open>Databases for the examples: each answers every round trip in a fixed way.\<close>

definition rejectAll :: "unit SendBatch" where
  "rejectAll its d = ((Some ''ERROR: invalid input syntax for type json'', None), d)"

definition rejectMany :: "unit SendBatch" where
  "rejectMany its d =
     ((if length its > 1 then Some ''ERROR: deadlock detected'' else None, None), d)"

definition rejectManyThenBusy :: "unit SendBatch" where
  "rejectManyThenBusy its d =
     (if length its > 1 then ((Some ''ERROR: deadlock detected'', None), d)
      else ((None, Some ''conn busy''), d))"

definition closeBusy :: "unit SendBatch" where
  "closeBusy its d = ((Some ''ERROR: invalid input syntax for type json'', Some ''conn busy''), d)"

definition closeEOF :: "unit SendBatch" where
  "closeEOF its d = ((None, Some ''unexpected EOF''), d)"

text \<open>Handlers and a tracker with two requests in flight, for the examples of the limiter.\<close>

definition okHandler :: "requestTracker \<Rightarrow> string handlerExit \<times> requestTracker" where
  "okHandler t = (Return ''200'', t)"

definition errorHandler :: "requestTracker \<Rightarrow> string handlerExit \<times> requestTracker" where
  "errorHandler t = (Return ''500 Server error while processing the request.'', t)"

definition panicHandler :: "requestTracker \<Rightarrow> string handlerExit \<times> requestTracker" where
  "panicHandler t = (Panic, t)"

definition twoInFlight :: requestTracker where
  "twoInFlight = Mapping.update ''cluster-b'' 20 (Mapping.update ''cluster-a'' 10 Mapping.empty)"


text \<open>
  A world for the examples of cluster deletion: nothing logged yet, an empty cache, and the
  given errors waiting for the next driver calls.
\<close>

definition scripted :: "string option list \<Rightarrow> unit world" where
  "scripted s = \<lparr> script = s, log = [], clustersCache = Mapping.empty \<rparr>"

definition neverFails :: "stmt \<Rightarrow> string option" where
  "neverFails s = None"

text \<open>
  What a cascade delete that went through leaves in the log: the transaction with the two
  statements for the cluster, committed, every call without error.
\<close>

definition committedCascade :: "string \<Rightarrow> event list" where
  "committedCascade clusterName =
     [Call BeginTx None,
      Call (TxExec (DeleteWhere ''resources'' ''cluster'' clusterName)) None,
      Call (TxExec (DeleteWhere ''edges'' ''cluster'' clusterName)) None,
      Call TxCommit None]"

text \<open>The events of attempts that failed: no statement on the pool, no successful commit.\<close>

definition failedCascades :: "event list \<Rightarrow> bool" where
  "failedCascades evs \<longleftrightarrow>
     (\<forall>ev \<in> set evs. case ev of
                        Call (PoolExec s) r \<Rightarrow> False
                      | Call TxCommit None \<Rightarrow> False
                      | _ \<Rightarrow> True)"

text \<open>The events of failed attempts to delete the cluster node: the statement with an error, or a sleep.\<close>

definition failedNodeDeletes :: "stmt \<Rightarrow> event list \<Rightarrow> bool" where
  "failedNodeDeletes s evs \<longleftrightarrow>
     (\<forall>ev \<in> set evs. case ev of
                        Call c r \<Rightarrow> c = PoolExec s \<and> r \<noteq> None
                      | Sleep ms \<Rightarrow> True)"

definition managedCluster :: clusterObject where
  "managedCluster = \<lparr> GetKind = ''ManagedCluster'', GetName = ''name-foo'', GetNamespace = '''' \<rparr>"

definition managedClusterInfo :: clusterObject where
  "managedClusterInfo =
     \<lparr> GetKind = ''ManagedClusterInfo'', GetName = ''name-foo'', GetNamespace = ''name-foo'' \<rparr>"

definition searchCollectorAddOn :: clusterObject where
  "searchCollectorAddOn =
     \<lparr> GetKind = ''ManagedClusterAddOn'', GetName = ''search-collector'',
       GetNamespace = ''name-foo'' \<rparr>"

definition fooInCache :: "string option list \<Rightarrow> unit world" where
  "fooInCache s =
     \<lparr> script = s, log = [], clustersCache = Mapping.update ''cluster__name-foo'' () Mapping.empty \<rparr>"







section \<open>Properties of the batch engine\<close>

lemma errorArray_None_iff: "errorArray a = None \<longleftrightarrow> a \<notin> perRowActions"
  by (simp add: errorArray_def perRowActions_def)

lemma sendBatch_single_failure:
  assumes "pool [item] d = ((Some e, None), d1)"
  shows "sendBatch pool (Suc fuel) [item] (b, d) =
     (case errorArray (action item) of
        None \<Rightarrow> Some (NilPointerDereference, b, d1)
      | Some ref \<Rightarrow> Some (Returned None,
           b\<lparr> syncResponse := appendError ref (rowError item) (syncResponse b) \<rparr>, d1))"
  using assms by (simp split: option.splits)

lemma sendBatch_close_error:
  assumes "pool its d = ((execErr, Some ce), d1)"
  shows "sendBatch pool (Suc fuel) its (b, d) =
     (if connectionFatal ce
      then Some (Returned (Some ''Failed to connect to database.''), b\<lparr> connError := Some ce \<rparr>, d1)
      else Some (Returned (Some ce), b, d1))"
  using assms by simp

lemma sendBatch_connError:
  "sendBatch pool fuel its (b, d) = Some (r, b', d') \<Longrightarrow>
     (connError b \<noteq> None \<longrightarrow> connError b' \<noteq> None) \<and>
     (\<forall>ce. connError b' = Some ce \<longrightarrow> connError b = Some ce \<or> connectionFatal ce)"
proof (induction fuel arbitrary: its b d r b' d')
  case 0
  then show ?case by simp
next
  case (Suc fuel)
  obtain execErr closeErr d1 where p: "pool its d = ((execErr, closeErr), d1)"
    by (metis prod.exhaust)
  show ?case
  proof (cases closeErr)
    case (Some ce)
    with Suc.prems p show ?thesis by (auto split: if_splits)
  next
    case None
    show ?thesis
    proof (cases "execErr \<noteq> None \<and> length its = 1")
      case True
      with Suc.prems p None show ?thesis by (auto simp: Let_def split: option.splits)
    next
      case single: False
      show ?thesis
      proof (cases "execErr = None")
        case True
        with Suc.prems p None single show ?thesis by auto
      next
        case False
        let ?l = "take (length its div 2) its" and ?r = "drop (length its div 2) its"
        from Suc.prems p None single False
        obtain r1 b1 e1 where h1: "sendBatch pool fuel ?l (b, d1) = Some (r1, b1, e1)"
          by (auto split: option.splits)
        show ?thesis
        proof (cases r1)
          case NilPointerDereference
          with Suc.prems p None single False h1 have "b' = b1" by auto
          with Suc.IH[OF h1] show ?thesis by simp
        next
          case (Returned err1)
          with Suc.prems p None single False h1
          obtain r2 where h2: "sendBatch pool fuel ?r (b1, e1) = Some (r2, b', d')"
            by (auto split: option.splits outcome.splits if_splits)
          from Suc.IH[OF h1] Suc.IH[OF h2] show ?thesis by auto
        qed
      qed
    qed
  qed
qed

lemma sendBatch_returns:
  "its \<noteq> [] \<Longrightarrow> length its \<le> fuel \<Longrightarrow> sendBatch pool fuel its (b, d) \<noteq> None"
proof (induction fuel arbitrary: its b d)
  case 0
  then show ?case by simp
next
  case (Suc fuel)
  obtain execErr closeErr d1 where p: "pool its d = ((execErr, closeErr), d1)"
    by (metis prod.exhaust)
  show ?case
  proof (cases "closeErr = None \<and> execErr \<noteq> None \<and> length its \<noteq> 1")
    case False
    with p show ?thesis by (auto simp: Let_def split: option.splits)
  next
    case True
    let ?l = "take (length its div 2) its" and ?r = "drop (length its div 2) its"
    from True Suc.prems have "length its \<noteq> 0" "length its \<noteq> 1" by auto
    then have len: "2 \<le> length its" by arith
    then have l: "?l \<noteq> []" "length ?l \<le> fuel" and r: "?r \<noteq> []" "length ?r \<le> fuel"
      using Suc.prems by auto
    from Suc.IH[OF l] obtain r1 b1 e1 where h1: "sendBatch pool fuel ?l (b, d1) = Some (r1, b1, e1)"
      by (metis not_None_eq prod.exhaust)
    from Suc.IH[OF r] obtain r2 b2 e2 where h2: "sendBatch pool fuel ?r (b1, e1) = Some (r2, b2, e2)"
      by (metis not_None_eq prod.exhaust)
    from True p h1 h2 show ?thesis by (auto split: outcome.splits)
  qed
qed

lemma connectionFatal_EOF: "connectionFatal ''unexpected EOF''"
  by (simp add: connectionFatal_def strings_Contains_def)

lemma not_connectionFatal_busy: "\<not> connectionFatal ''conn busy''"
  by (simp add: connectionFatal_def strings_Contains_def sublist_code)

lemma flush_sampleAdd: "dispatched (flush (snd (Queue freshBatch sampleAdd))) = [[sampleBulk]]"
  by (simp add: flush_def Queue_def freshBatch_def NewBatchWithRetry_def NewDAO_def sampleAdd_def
      sampleBulk_def dispatch_def Let_def)

text \<open>
  C10. The single-item failure branch of \<open>sendBatch\<close> is unsafe for some input: when a
  snapshot of exactly one item fails to execute (and closing reports no error), the call
  ends in the dereference of a nil error-array pointer exactly when the item's action is
  none of \<open>addResource\<close>, \<open>updateResource\<close>, \<open>deleteResource\<close>, \<open>addEdge\<close>, \<open>deleteEdge\<close>,
  as for a \<open>bulkResources\<close> item; with one of the five actions it returns nil.
\<close>

theorem sendBatch_single_item_failure_unsafe:
  fixes pool :: "'d SendBatch"
  shows "(\<exists>(p :: unit SendBatch) b0 it. action it = ''bulkResources'' \<and>
            sendBatch p 1 [it] (b0, ()) = Some (NilPointerDereference, b0, ()))
       \<and> (pool [item] d = ((Some e, None), d1) \<longrightarrow>
            ((sendBatch pool (Suc fuel) [item] (b, d) = Some (NilPointerDereference, b, d1))
               = (action item \<notin> perRowActions)) \<and>
            (action item \<in> perRowActions \<longrightarrow>
               (\<exists>b'. sendBatch pool (Suc fuel) [item] (b, d) = Some (Returned None, b', d1))))"
proof (intro conjI impI)
  have "rejectAll [sampleBulk] () = ((Some ''ERROR: invalid input syntax for type json'', None), ())"
    by (simp add: rejectAll_def)
  from sendBatch_single_failure[where pool = rejectAll and item = sampleBulk and d = "()"
      and fuel = 0 and b = freshBatch, OF this]
  have "sendBatch rejectAll 1 [sampleBulk] (freshBatch, ()) = Some (NilPointerDereference, freshBatch, ())"
    by (simp add: sampleBulk_def bulkItem_def errorArray_def)
  moreover have "action sampleBulk = ''bulkResources''"
    by (simp add: sampleBulk_def bulkItem_def)
  ultimately show "\<exists>(p :: unit SendBatch) b0 it. action it = ''bulkResources'' \<and>
            sendBatch p 1 [it] (b0, ()) = Some (NilPointerDereference, b0, ())"
    by blast
next
  assume p: "pool [item] d = ((Some e, None), d1)"
  show "(sendBatch pool (Suc fuel) [item] (b, d) = Some (NilPointerDereference, b, d1))
          = (action item \<notin> perRowActions)"
    using sendBatch_single_failure[where pool = pool and item = item and fuel = fuel and b = b, OF p] errorArray_None_iff[of "action item"]
    by (auto split: option.splits)
next
  assume p: "pool [item] d = ((Some e, None), d1)" and a: "action item \<in> perRowActions"
  show "\<exists>b'. sendBatch pool (Suc fuel) [item] (b, d) = Some (Returned None, b', d1)"
    using sendBatch_single_failure[where pool = pool and item = item and fuel = fuel and b = b, OF p] errorArray_None_iff[of "action item"] a
    by (auto split: option.splits)
qed

theorem sendBatch_single_item_failure_unsafe_witness:
  "rejectAll [sampleBulk] () = ((Some ''ERROR: invalid input syntax for type json'', None), ())
   \<and> dispatched (flush (snd (Queue freshBatch sampleAdd))) = [[sampleBulk]]
   \<and> action sampleBulk \<notin> perRowActions
   \<and> sendBatch rejectAll 1 [sampleBulk] (freshBatch, ()) = Some (NilPointerDereference, freshBatch, ())
   \<and> action sampleUpdate \<in> perRowActions
   \<and> (\<exists>b'. sendBatch rejectAll 1 [sampleUpdate] (freshBatch, ()) = Some (Returned None, b', ()))"
proof -
  have p: "\<And>it. rejectAll [it] () = ((Some ''ERROR: invalid input syntax for type json'', None), ())"
    by (simp add: rejectAll_def)
  have a: "action sampleBulk \<notin> perRowActions"
    by (simp add: sampleBulk_def bulkItem_def perRowActions_def)
  have u: "action sampleUpdate \<in> perRowActions"
    by (simp add: sampleUpdate_def perRowActions_def)
  from sendBatch_single_item_failure_unsafe[of rejectAll sampleBulk "()" _ "()" 0 freshBatch]
    sendBatch_single_item_failure_unsafe[of rejectAll sampleUpdate "()" _ "()" 0 freshBatch]
    p a u flush_sampleAdd
  show ?thesis by simp
qed

text \<open>
  C1 (the code departs from the claim). A snapshot of two items fails to execute and both
  halves then succeed, yet \<open>sendBatch\<close> returns the execution error; and when both halves
  return an error it returns nil.
\<close>

theorem sendBatch_bisect_returns_error_when_halves_succeed:
  "sendBatch rejectMany 1 [sampleUpdate] (freshBatch, ()) = Some (Returned None, freshBatch, ())
   \<and> sendBatch rejectMany 1 [sampleDelete] (freshBatch, ()) = Some (Returned None, freshBatch, ())
   \<and> sendBatch rejectMany 2 [sampleUpdate, sampleDelete] (freshBatch, ())
       = Some (Returned (Some ''ERROR: deadlock detected''), freshBatch, ())
   \<and> sendBatch rejectManyThenBusy 1 [sampleUpdate] (freshBatch, ())
       = Some (Returned (Some ''conn busy''), freshBatch, ())
   \<and> sendBatch rejectManyThenBusy 1 [sampleDelete] (freshBatch, ())
       = Some (Returned (Some ''conn busy''), freshBatch, ())
   \<and> sendBatch rejectManyThenBusy 2 [sampleUpdate, sampleDelete] (freshBatch, ())
       = Some (Returned None, freshBatch, ())"
  using not_connectionFatal_busy
  by (simp add: rejectMany_def rejectManyThenBusy_def numeral_2_eq_2)

lemma Queue_connError: "connError (snd (Queue b item)) = connError b"
  by (simp add: Queue_def dispatch_def Let_def)

lemma flush_connError: "connError (flush b) = connError b"
  by (simp add: flush_def dispatch_def Let_def)

lemma sendBatch_connError_source:
  "sendBatch pool fuel its (b, d) = Some (r, b', d') \<Longrightarrow>
     connError b' = connError b \<or>
     (\<exists>its0 d0 x ce d2. sublist its0 its \<and> pool its0 d0 = ((x, Some ce), d2) \<and>
        connectionFatal ce \<and> connError b' = Some ce)"
proof (induction fuel arbitrary: its b d r b' d')
  case 0
  then show ?case by simp
next
  case (Suc fuel)
  obtain execErr closeErr d1 where p: "pool its d = ((execErr, closeErr), d1)"
    by (metis prod.exhaust)
  show ?case
  proof (cases closeErr)
    case (Some ce)
    show ?thesis
    proof (cases "connectionFatal ce")
      case True
      with Suc.prems p Some have "connError b' = Some ce" by auto
      with p Some True have "sublist its its \<and> pool its d = ((execErr, Some ce), d1) \<and>
          connectionFatal ce \<and> connError b' = Some ce"
        by simp
      then show ?thesis by blast
    next
      case False
      with Suc.prems p Some show ?thesis by auto
    qed
  next
    case None
    show ?thesis
    proof (cases "execErr \<noteq> None \<and> length its = 1")
      case True
      with Suc.prems p None show ?thesis by (auto simp: Let_def split: option.splits)
    next
      case single: False
      show ?thesis
      proof (cases "execErr = None")
        case True
        with Suc.prems p None single show ?thesis by auto
      next
        case False
        let ?l = "take (length its div 2) its" and ?r = "drop (length its div 2) its"
        have sl: "\<And>xs. sublist xs ?l \<Longrightarrow> sublist xs its"
          using sublist_take sublist_order.order_trans by blast
        have sr: "\<And>xs. sublist xs ?r \<Longrightarrow> sublist xs its"
          using sublist_drop sublist_order.order_trans by blast
        from Suc.prems p None single False
        obtain r1 b1 e1 where h1: "sendBatch pool fuel ?l (b, d1) = Some (r1, b1, e1)"
          by (auto split: option.splits)
        from Suc.IH[OF h1] sl
        have i1: "connError b1 = connError b \<or>
            (\<exists>its0 d0 x ce d2. sublist its0 its \<and> pool its0 d0 = ((x, Some ce), d2) \<and>
               connectionFatal ce \<and> connError b1 = Some ce)"
          by blast
        show ?thesis
        proof (cases r1)
          case NilPointerDereference
          with Suc.prems p None single False h1 have "b' = b1" by auto
          with i1 show ?thesis by simp
        next
          case (Returned err1)
          with Suc.prems p None single False h1
          obtain r2 where h2: "sendBatch pool fuel ?r (b1, e1) = Some (r2, b', d')"
            by (auto split: option.splits outcome.splits if_splits)
          from Suc.IH[OF h2] sr
          have i2: "connError b' = connError b1 \<or>
              (\<exists>its0 d0 x ce d2. sublist its0 its \<and> pool its0 d0 = ((x, Some ce), d2) \<and>
                 connectionFatal ce \<and> connError b' = Some ce)"
            by blast
          from i1 i2 show ?thesis by metis
        qed
      qed
    qed
  qed
qed

lemma sendBatch_no_close_error:
  assumes "pool its d = ((execErr, None), d1)" and "execErr = None \<or> length its = 1"
  shows "\<exists>r0 b0. sendBatch pool (Suc fuel) its (b, d) = Some (r0, b0, d1) \<and>
           connError b0 = connError b"
  using assms by (auto simp: Let_def split: option.splits)

text \<open>
  C3. When closing a batch result returns an error whose text contains
  \<open>unexpected EOF\<close> or \<open>failed to connect\<close>, \<open>sendBatch\<close> stores that error in
  \<open>connError\<close> and returns an error at once, changing nothing else. From then on
  \<open>connError\<close> stays set through every later \<open>sendBatch\<close>, \<open>Queue\<close> and \<open>flush\<close>, and a
  \<open>Queue\<close> call on an engine whose \<open>connError\<close> is set returns that error and leaves the
  engine as it is, the item not enqueued. \<open>Queue\<close> returns an error in no other case: what it
  returns is \<open>connError\<close> itself, which is nil in a new engine and which neither \<open>Queue\<close> nor
  \<open>flush\<close> changes. \<open>sendBatch\<close> changes it only to a close error with one of the two texts
  that the driver returned for a contiguous part of the snapshot: a close error with another
  text is returned with the engine as it was; with no close error a call that does not
  split the snapshot (nothing failed, or the snapshot has one item) leaves \<open>connError\<close> as
  it was, and a call that splits the snapshot hands the engine as it is to the first half
  and returns the engine as the last half it ran left it.
\<close>

theorem connection_fatal_close_poisons_Queue:
  fixes pool :: "'d SendBatch"
  shows "(pool its d = ((execErr, Some ce), d1) \<and> connectionFatal ce \<longrightarrow>
            sendBatch pool (Suc fuel) its (b, d)
              = Some (Returned (Some ''Failed to connect to database.''),
                      b\<lparr> connError := Some ce \<rparr>, d1))
       \<and> (connectionFatal ce \<longleftrightarrow>
            strings_Contains ce ''unexpected EOF'' \<or> strings_Contains ce ''failed to connect'')
       \<and> (connError b \<noteq> None \<longrightarrow> Queue b item = (connError b, b))
       \<and> ((fst (Queue b item) \<noteq> None) = (connError b \<noteq> None))
       \<and> connError (snd (Queue b item)) = connError b
       \<and> connError (flush b) = connError b
       \<and> (sendBatch pool n its' (b, d) = Some (r, b', d') \<longrightarrow>
            (connError b \<noteq> None \<longrightarrow> connError b' \<noteq> None) \<and>
            (\<forall>e. connError b' = Some e \<longrightarrow> connError b = Some e \<or> connectionFatal e))
       \<and> connError (NewBatchWithRetry dao0 resp0) = None
       \<and> fst (Queue b item) = connError b
       \<and> (pool its d = ((execErr, Some ce), d1) \<and> \<not> connectionFatal ce \<longrightarrow>
            sendBatch pool (Suc fuel) its (b, d) = Some (Returned (Some ce), b, d1))
       \<and> (pool its d = ((execErr, None), d1) \<and> (execErr = None \<or> length its = 1) \<longrightarrow>
            (\<exists>r0 b0. sendBatch pool (Suc fuel) its (b, d) = Some (r0, b0, d1) \<and>
               connError b0 = connError b))
       \<and> (sendBatch pool n its' (b, d) = Some (r, b', d') \<longrightarrow>
            connError b' = connError b \<or>
            (\<exists>its0 d0 x e d2. sublist its0 its' \<and> pool its0 d0 = ((x, Some e), d2) \<and>
               connectionFatal e \<and> connError b' = Some e))
       \<and> (pool its d = ((Some xe, None), d1) \<and> length its \<noteq> 1
            \<and> sendBatch pool fuel (take (length its div 2) its) (b, d1)
                = Some (NilPointerDereference, b1, e1) \<longrightarrow>
            sendBatch pool (Suc fuel) its (b, d) = Some (NilPointerDereference, b1, e1))
       \<and> (pool its d = ((Some xe, None), d1) \<and> length its \<noteq> 1
            \<and> sendBatch pool fuel (take (length its div 2) its) (b, d1)
                = Some (Returned err1, b1, e1)
            \<and> sendBatch pool fuel (drop (length its div 2) its) (b1, e1) = Some (r2, b2, e2) \<longrightarrow>
            (\<exists>r0. sendBatch pool (Suc fuel) its (b, d) = Some (r0, b2, e2)))"
proof -
  have c1: "pool its d = ((execErr, Some ce), d1) \<and> connectionFatal ce \<longrightarrow>
      sendBatch pool (Suc fuel) its (b, d)
        = Some (Returned (Some ''Failed to connect to database.''), b\<lparr> connError := Some ce \<rparr>, d1)"
    by simp
  have c2: "connectionFatal ce \<longleftrightarrow>
      strings_Contains ce ''unexpected EOF'' \<or> strings_Contains ce ''failed to connect''"
    by (simp add: connectionFatal_def)
  have c3: "connError b \<noteq> None \<longrightarrow> Queue b item = (connError b, b)"
    by (simp add: Queue_def)
  have c4: "(fst (Queue b item) \<noteq> None) = (connError b \<noteq> None)"
    by (simp add: Queue_def Let_def)
  have c5: "connError (snd (Queue b item)) = connError b" by (rule Queue_connError)
  have c6: "connError (flush b) = connError b" by (rule flush_connError)
  have c7: "sendBatch pool n its' (b, d) = Some (r, b', d') \<longrightarrow>
            (connError b \<noteq> None \<longrightarrow> connError b' \<noteq> None) \<and>
            (\<forall>e. connError b' = Some e \<longrightarrow> connError b = Some e \<or> connectionFatal e)"
    using sendBatch_connError[of pool n its' b d r b' d'] by blast
  have c8: "connError (NewBatchWithRetry dao0 resp0) = None"
    by (simp add: NewBatchWithRetry_def)
  have c9: "fst (Queue b item) = connError b"
    by (simp add: Queue_def Let_def)
  have c10: "pool its d = ((execErr, Some ce), d1) \<and> \<not> connectionFatal ce \<longrightarrow>
      sendBatch pool (Suc fuel) its (b, d) = Some (Returned (Some ce), b, d1)"
    by simp
  have c11: "pool its d = ((execErr, None), d1) \<and> (execErr = None \<or> length its = 1) \<longrightarrow>
      (\<exists>r0 b0. sendBatch pool (Suc fuel) its (b, d) = Some (r0, b0, d1) \<and>
         connError b0 = connError b)"
    using sendBatch_no_close_error[of pool its d execErr d1 fuel b] by blast
  have c12: "sendBatch pool n its' (b, d) = Some (r, b', d') \<longrightarrow>
      connError b' = connError b \<or>
      (\<exists>its0 d0 x e d2. sublist its0 its' \<and> pool its0 d0 = ((x, Some e), d2) \<and>
         connectionFatal e \<and> connError b' = Some e)"
    using sendBatch_connError_source[of pool n its' b d r b' d'] by blast
  have c13: "pool its d = ((Some xe, None), d1) \<and> length its \<noteq> 1
            \<and> sendBatch pool fuel (take (length its div 2) its) (b, d1)
                = Some (NilPointerDereference, b1, e1) \<longrightarrow>
            sendBatch pool (Suc fuel) its (b, d) = Some (NilPointerDereference, b1, e1)"
    by simp
  have c14: "pool its d = ((Some xe, None), d1) \<and> length its \<noteq> 1
            \<and> sendBatch pool fuel (take (length its div 2) its) (b, d1)
                = Some (Returned err1, b1, e1)
            \<and> sendBatch pool fuel (drop (length its div 2) its) (b1, e1) = Some (r2, b2, e2) \<longrightarrow>
            (\<exists>r0. sendBatch pool (Suc fuel) its (b, d) = Some (r0, b2, e2))"
    by (cases r2) simp_all
  show ?thesis
    by (intro conjI c1 c2 c3 c4 c5 c6 c7 c8 c9 c10 c11 c12 c13 c14)
qed

theorem connection_fatal_close_poisons_Queue_witness:
  "closeEOF [sampleUpdate] () = ((None, Some ''unexpected EOF''), ())
   \<and> connectionFatal ''unexpected EOF''
   \<and> connError freshBatch = None
   \<and> sendBatch closeEOF 1 [sampleUpdate] (freshBatch, ())
       = Some (Returned (Some ''Failed to connect to database.''),
               freshBatch\<lparr> connError := Some ''unexpected EOF'' \<rparr>, ())
   \<and> connError (freshBatch\<lparr> connError := Some ''unexpected EOF'' \<rparr>) \<noteq> None
   \<and> Queue (freshBatch\<lparr> connError := Some ''unexpected EOF'' \<rparr>) sampleAdd
       = (Some ''unexpected EOF'', freshBatch\<lparr> connError := Some ''unexpected EOF'' \<rparr>)
   \<and> fst (Queue freshBatch sampleAdd) = None
   \<and> closeBusy [sampleUpdate] ()
       = ((Some ''ERROR: invalid input syntax for type json'', Some ''conn busy''), ())
   \<and> \<not> connectionFatal ''conn busy''
   \<and> sendBatch closeBusy 1 [sampleUpdate] (freshBatch, ())
       = Some (Returned (Some ''conn busy''), freshBatch, ())
   \<and> rejectAll [sampleUpdate] ()
       = ((Some ''ERROR: invalid input syntax for type json'', None), ())
   \<and> length [sampleUpdate] = 1
   \<and> (\<exists>r0 b0. sendBatch rejectAll 1 [sampleUpdate] (freshBatch, ()) = Some (r0, b0, ()) \<and>
         connError b0 = None)"
proof -
  have p: "closeEOF [sampleUpdate] () = ((None, Some ''unexpected EOF''), ())"
    by (simp add: closeEOF_def)
  have q: "closeBusy [sampleUpdate] ()
       = ((Some ''ERROR: invalid input syntax for type json'', Some ''conn busy''), ())"
    by (simp add: closeBusy_def)
  have s: "rejectAll [sampleUpdate] ()
       = ((Some ''ERROR: invalid input syntax for type json'', None), ())"
    by (simp add: rejectAll_def)
  have c: "connError freshBatch = None"
    by (simp add: freshBatch_def NewBatchWithRetry_def)
  from connection_fatal_close_poisons_Queue[where pool = closeEOF and its = "[sampleUpdate]"
      and d = "()" and execErr = None and ce = "''unexpected EOF''" and ?d1.0 = "()" and fuel = 0
      and b = "freshBatch\<lparr> connError := Some ''unexpected EOF'' \<rparr>" and item = sampleAdd]
    connection_fatal_close_poisons_Queue[where pool = closeEOF and its = "[sampleUpdate]"
      and d = "()" and execErr = None and ce = "''unexpected EOF''" and ?d1.0 = "()" and fuel = 0
      and b = freshBatch and item = sampleAdd]
    p c connectionFatal_EOF
  have w1: "sendBatch closeEOF 1 [sampleUpdate] (freshBatch, ())
       = Some (Returned (Some ''Failed to connect to database.''),
               freshBatch\<lparr> connError := Some ''unexpected EOF'' \<rparr>, ())"
    and w2: "Queue (freshBatch\<lparr> connError := Some ''unexpected EOF'' \<rparr>) sampleAdd
       = (Some ''unexpected EOF'', freshBatch\<lparr> connError := Some ''unexpected EOF'' \<rparr>)"
    and w3: "fst (Queue freshBatch sampleAdd) = None"
    by simp_all
  from connection_fatal_close_poisons_Queue[where pool = closeBusy and its = "[sampleUpdate]"
      and d = "()" and execErr = "Some ''ERROR: invalid input syntax for type json''"
      and ce = "''conn busy''" and ?d1.0 = "()" and fuel = 0 and b = freshBatch]
    q not_connectionFatal_busy
  have w4: "sendBatch closeBusy 1 [sampleUpdate] (freshBatch, ())
       = Some (Returned (Some ''conn busy''), freshBatch, ())"
    by simp
  from connection_fatal_close_poisons_Queue[where pool = rejectAll and its = "[sampleUpdate]"
      and d = "()" and execErr = "Some ''ERROR: invalid input syntax for type json''"
      and ?d1.0 = "()" and fuel = 0 and b = freshBatch]
    s c
  have w5: "\<exists>r0 b0. sendBatch rejectAll 1 [sampleUpdate] (freshBatch, ()) = Some (r0, b0, ()) \<and>
         connError b0 = None"
    by simp
  from p q s c connectionFatal_EOF not_connectionFatal_busy w1 w2 w3 w4 w5
  show ?thesis by simp
qed

text \<open>
  C6, as the claim states it, fails: a snapshot of one item fails to execute and closing
  returns an error that is not connection-fatal; \<open>sendBatch\<close> returns that close error and
  appends nothing.
\<close>

theorem sendBatch_single_item_close_error_counterexample:
  "closeBusy [sampleUpdate] ()
     = ((Some ''ERROR: invalid input syntax for type json'', Some ''conn busy''), ())
   \<and> \<not> connectionFatal ''conn busy''
   \<and> sendBatch closeBusy 1 [sampleUpdate] (freshBatch, ())
       = Some (Returned (Some ''conn busy''), freshBatch, ())
   \<and> UpdateErrors (syncResponse freshBatch) = []"
  using not_connectionFatal_busy
  by (simp add: closeBusy_def freshBatch_def NewBatchWithRetry_def emptyResponse_def)

text \<open>
  C6, amended. Whenever a dispatched snapshot of exactly one item, whose action is one of
  \<open>addResource\<close>, \<open>updateResource\<close>, \<open>deleteResource\<close>, \<open>addEdge\<close>, \<open>deleteEdge\<close>, fails to
  execute and closing the batch result returns no error, \<open>sendBatch\<close> appends exactly one
  entry to the response error array selected by the item's action (\<open>AddErrors\<close>,
  \<open>UpdateErrors\<close>, \<open>DeleteErrors\<close>, \<open>AddEdgeErrors\<close>, \<open>DeleteEdgeErrors\<close> in this order),
  with \<open>resourceUID\<close> the item's \<open>uid\<close> and a non-empty message, leaves the other arrays
  as they are, and returns nil.
\<close>

theorem sendBatch_single_row_error_recorded:
  fixes pool :: "'d SendBatch"
  assumes "pool [item] d = ((Some e, None), d1)"
    and "(action item, ref) \<in> {(''addResource'', AddErrorsRef), (''updateResource'', UpdateErrorsRef),
            (''deleteResource'', DeleteErrorsRef), (''addEdge'', AddEdgeErrorsRef),
            (''deleteEdge'', DeleteEdgeErrorsRef)}"
  shows "\<exists>b' msg. sendBatch pool (Suc fuel) [item] (b, d) = Some (Returned None, b', d1)
           \<and> deref ref (syncResponse b')
               = deref ref (syncResponse b) @ [\<lparr> ResourceUID = uid item, Message = msg \<rparr>]
           \<and> msg \<noteq> []
           \<and> (\<forall>r. r \<noteq> ref \<longrightarrow> deref r (syncResponse b') = deref r (syncResponse b))
           \<and> b' = b\<lparr> syncResponse := syncResponse b' \<rparr>"
proof -
  from assms(2) have ea: "errorArray (action item) = Some ref"
    by (auto simp: errorArray_def)
  let ?b' = "b\<lparr> syncResponse := appendError ref (rowError item) (syncResponse b) \<rparr>"
  from sendBatch_single_failure[where pool = pool and item = item and fuel = fuel and b = b,
      OF assms(1)] ea
  have run: "sendBatch pool (Suc fuel) [item] (b, d) = Some (Returned None, ?b', d1)"
    by simp
  have app: "deref ref (syncResponse ?b') = deref ref (syncResponse b) @ [rowError item]"
    by (cases ref) simp_all
  have others: "\<forall>r. r \<noteq> ref \<longrightarrow> deref r (syncResponse ?b') = deref r (syncResponse b)"
  proof (intro allI impI)
    fix r assume "r \<noteq> ref"
    then show "deref r (syncResponse ?b') = deref r (syncResponse b)"
      by (cases ref; cases r) simp_all
  qed
  have msg: "Message (rowError item) \<noteq> []" and row:
    "rowError item = \<lparr> ResourceUID = uid item, Message = Message (rowError item) \<rparr>"
    by (simp_all add: rowError_def)
  from run app others msg row show ?thesis
    by (intro exI[of _ ?b'] exI[of _ "Message (rowError item)"]) simp
qed

theorem sendBatch_single_row_error_recorded_witness:
  "rejectAll [sampleUpdate] () = ((Some ''ERROR: invalid input syntax for type json'', None), ())
   \<and> (action sampleUpdate, UpdateErrorsRef) \<in>
        {(''addResource'', AddErrorsRef), (''updateResource'', UpdateErrorsRef),
         (''deleteResource'', DeleteErrorsRef), (''addEdge'', AddEdgeErrorsRef),
         (''deleteEdge'', DeleteEdgeErrorsRef)}
   \<and> (\<exists>b' msg. sendBatch rejectAll 1 [sampleUpdate] (freshBatch, ()) = Some (Returned None, b', ())
         \<and> UpdateErrors (syncResponse b') = [\<lparr> ResourceUID = ''uid-2'', Message = msg \<rparr>]
         \<and> msg \<noteq> [])"
proof -
  have p: "rejectAll [sampleUpdate] () = ((Some ''ERROR: invalid input syntax for type json'', None), ())"
    by (simp add: rejectAll_def)
  have a: "(action sampleUpdate, UpdateErrorsRef) \<in>
        {(''addResource'', AddErrorsRef), (''updateResource'', UpdateErrorsRef),
         (''deleteResource'', DeleteErrorsRef), (''addEdge'', AddEdgeErrorsRef),
         (''deleteEdge'', DeleteEdgeErrorsRef)}"
    by (simp add: sampleUpdate_def)
  have u: "uid sampleUpdate = ''uid-2''" "UpdateErrors (syncResponse freshBatch) = []"
    by (simp_all add: sampleUpdate_def freshBatch_def NewBatchWithRetry_def emptyResponse_def)
  from sendBatch_single_row_error_recorded[where pool = rejectAll and item = sampleUpdate
      and d = "()" and ?d1.0 = "()" and fuel = 0 and b = freshBatch and ref = UpdateErrorsRef,
      OF p a] u
  obtain b' msg where
    "sendBatch rejectAll 1 [sampleUpdate] (freshBatch, ()) = Some (Returned None, b', ())"
    "UpdateErrors (syncResponse b') = [\<lparr> ResourceUID = ''uid-2'', Message = msg \<rparr>]"
    "msg \<noteq> []"
    by auto
  with p a show ?thesis by blast
qed

section \<open>Properties of the request limiter\<close>

lemma twoInFlight_facts:
  "Mapping.lookup twoInFlight ''cluster-a'' = Some 10"
  "Mapping.lookup twoInFlight ''cluster-c'' = None"
  "Mapping.lookup twoInFlight ''local-cluster'' = None"
  "Mapping.size twoInFlight = 2"
  by (simp_all add: twoInFlight_def Mapping.size_def)

text \<open>
  C4. The limiter applies its rules in order. If the tracker already holds the request's
  cluster name, it answers 429 with the text "A previous request from this cluster is
  processing, retry later." and leaves the tracker alone. Otherwise, if the tracker's size
  is at least \<open>RequestLimit\<close> and the cluster is not \<open>local-cluster\<close>, it answers 429 with
  "Indexer has too many pending requests, retry later.". Otherwise it admits the request
  and runs the handler. So \<open>local-cluster\<close> is never turned away by the global cap.
\<close>

theorem requestLimiterMiddleware_rules:
  "(Mapping.lookup t c \<noteq> None \<longrightarrow>
      requestLimiterMiddleware L next now c t
        = (HttpError ''A previous request from this cluster is processing, retry later.'' 429, t))
   \<and> (Mapping.lookup t c = None \<and> int (Mapping.size t) \<ge> L \<and> c \<noteq> ''local-cluster'' \<longrightarrow>
      requestLimiterMiddleware L next now c t
        = (HttpError ''Indexer has too many pending requests, retry later.'' 429, t))
   \<and> (Mapping.lookup t c = None \<and> (int (Mapping.size t) < L \<or> c = ''local-cluster'') \<longrightarrow>
      (\<exists>t'. (next (Mapping.update c now t) = (Panic, t') \<and>
               requestLimiterMiddleware L next now c t = (Panicked, Mapping.delete c t'))
          \<or> (\<exists>r. next (Mapping.update c now t) = (Return r, t') \<and>
               requestLimiterMiddleware L next now c t = (Served r, Mapping.delete c t'))))
   \<and> (c = ''local-cluster'' \<longrightarrow>
      fst (requestLimiterMiddleware L next now c t)
        \<noteq> HttpError ''Indexer has too many pending requests, retry later.'' 429)"
proof -
  obtain ex t' where n: "next (Mapping.update c now t) = (ex, t')"
    by (metis prod.exhaust)
  have r1: "Mapping.lookup t c \<noteq> None \<longrightarrow>
      requestLimiterMiddleware L next now c t
        = (HttpError ''A previous request from this cluster is processing, retry later.'' 429, t)"
    by (simp add: requestLimiterMiddleware_def StatusTooManyRequests_def)
  have r2: "Mapping.lookup t c = None \<and> int (Mapping.size t) \<ge> L \<and> c \<noteq> ''local-cluster'' \<longrightarrow>
      requestLimiterMiddleware L next now c t
        = (HttpError ''Indexer has too many pending requests, retry later.'' 429, t)"
    by (simp add: requestLimiterMiddleware_def StatusTooManyRequests_def)
  have r3: "Mapping.lookup t c = None \<and> (int (Mapping.size t) < L \<or> c = ''local-cluster'') \<longrightarrow>
      (\<exists>t'. (next (Mapping.update c now t) = (Panic, t') \<and>
               requestLimiterMiddleware L next now c t = (Panicked, Mapping.delete c t'))
          \<or> (\<exists>r. next (Mapping.update c now t) = (Return r, t') \<and>
               requestLimiterMiddleware L next now c t = (Served r, Mapping.delete c t')))"
    using n by (cases ex) (auto simp: requestLimiterMiddleware_def Let_def)
  have r4: "c = ''local-cluster'' \<longrightarrow>
      fst (requestLimiterMiddleware L next now c t)
        \<noteq> HttpError ''Indexer has too many pending requests, retry later.'' 429"
    using n by (cases ex) (auto simp: requestLimiterMiddleware_def Let_def)
  show ?thesis by (intro conjI r1 r2 r3 r4)
qed

theorem requestLimiterMiddleware_rules_witness:
  "Mapping.lookup twoInFlight ''cluster-a'' \<noteq> None
   \<and> requestLimiterMiddleware 2 okHandler 30 ''cluster-a'' twoInFlight
       = (HttpError ''A previous request from this cluster is processing, retry later.'' 429,
          twoInFlight)
   \<and> Mapping.lookup twoInFlight ''cluster-c'' = None \<and> int (Mapping.size twoInFlight) \<ge> 2
   \<and> requestLimiterMiddleware 2 okHandler 30 ''cluster-c'' twoInFlight
       = (HttpError ''Indexer has too many pending requests, retry later.'' 429, twoInFlight)
   \<and> Mapping.lookup twoInFlight ''local-cluster'' = None
   \<and> fst (requestLimiterMiddleware 2 okHandler 30 ''local-cluster'' twoInFlight) = Served ''200''
   \<and> int (Mapping.size twoInFlight) < 50
   \<and> fst (requestLimiterMiddleware 50 okHandler 30 ''cluster-c'' twoInFlight) = Served ''200''"
proof -
  note f = twoInFlight_facts
  from requestLimiterMiddleware_rules[of twoInFlight "''cluster-a''" 2 okHandler 30]
    requestLimiterMiddleware_rules[of twoInFlight "''cluster-c''" 2 okHandler 30]
    requestLimiterMiddleware_rules[of twoInFlight "''local-cluster''" 2 okHandler 30]
    requestLimiterMiddleware_rules[of twoInFlight "''cluster-c''" 50 okHandler 30]
  show ?thesis
    by (simp add: f okHandler_def)
qed

text \<open>
  C5. For every admitted request the limiter puts the cluster's entry into the tracker
  before it runs the handler (the handler starts on a tracker that holds the entry) and
  removes it when the handler exits, whether the handler returns, with a success or an
  error response, or panics: at request exit the tracker holds no entry for the cluster.
\<close>

theorem requestLimiterMiddleware_releases_entry:
  assumes "Mapping.lookup t c = None"
    and "int (Mapping.size t) < L \<or> c = ''local-cluster''"
  shows "\<exists>ex t'. next (Mapping.update c now t) = (ex, t')
           \<and> Mapping.lookup (Mapping.update c now t) c = Some now
           \<and> requestLimiterMiddleware L next now c t
               = (case ex of Return r \<Rightarrow> Served r | Panic \<Rightarrow> Panicked, Mapping.delete c t')
           \<and> Mapping.lookup (snd (requestLimiterMiddleware L next now c t)) c = None"
proof -
  obtain ex t' where n: "next (Mapping.update c now t) = (ex, t')"
    by (metis prod.exhaust)
  from assms n have run: "requestLimiterMiddleware L next now c t
      = (case ex of Return r \<Rightarrow> Served r | Panic \<Rightarrow> Panicked, Mapping.delete c t')"
    by (cases ex) (auto simp: requestLimiterMiddleware_def Let_def)
  then have "Mapping.lookup (snd (requestLimiterMiddleware L next now c t)) c = None"
    by simp
  with n run show ?thesis by simp
qed

theorem requestLimiterMiddleware_releases_entry_witness:
  "Mapping.lookup twoInFlight ''cluster-c'' = None \<and> int (Mapping.size twoInFlight) < 50
   \<and> requestLimiterMiddleware 50 panicHandler 30 ''cluster-c'' twoInFlight
       = (Panicked, Mapping.delete ''cluster-c'' (Mapping.update ''cluster-c'' 30 twoInFlight))
   \<and> requestLimiterMiddleware 50 errorHandler 30 ''cluster-c'' twoInFlight
       = (Served ''500 Server error while processing the request.'',
          Mapping.delete ''cluster-c'' (Mapping.update ''cluster-c'' 30 twoInFlight))
   \<and> Mapping.lookup (snd (requestLimiterMiddleware 50 panicHandler 30 ''cluster-c'' twoInFlight))
        ''cluster-c'' = None
   \<and> Mapping.lookup (snd (requestLimiterMiddleware 50 errorHandler 30 ''cluster-c'' twoInFlight))
        ''cluster-c'' = None"
proof -
  have a: "Mapping.lookup twoInFlight ''cluster-c'' = None"
    and b: "int (Mapping.size twoInFlight) < 50 \<or> ''cluster-c'' = ''local-cluster''"
    by (simp_all add: twoInFlight_facts)
  from requestLimiterMiddleware_releases_entry[OF a b, of panicHandler 30]
    requestLimiterMiddleware_releases_entry[OF a b, of errorHandler 30]
  show ?thesis
    by (simp add: twoInFlight_facts panicHandler_def errorHandler_def)
qed

section \<open>Bulk grouping\<close>

lemma emitted_dispatch: "emitted (dispatch b) = emitted b"
  by (simp add: emitted_def dispatch_def)








lemma Sprintf_s_row3:
  "Sprintf_s (tuple_format sep 3) [u, c, j]
     = ''('' @ [sq] @ u @ [sq] @ sep @ [sq] @ c @ [sq] @ sep @ [sq] @ j @ [sq] @ '')''"
  by (simp add: tuple_format_def numeral_3_eq_3)





section \<open>Properties of cluster deletion\<close>

text \<open>
  C2 (the code departs from the claim). In the earlier version's transaction
  \<open>DeleteClusterTxn\<close>, when the first two statements succeed and the third one fails, the
  code rolls the transaction back and then calls \<open>Commit\<close> on it before it returns the
  error. When the first or the second statement fails it rolls back and returns without
  committing, as does the current \<open>DeleteClusterResourcesTxn\<close> for each of its statements.
\<close>

theorem DeleteClusterTxn_commits_after_statement_error:
  "DeleteClusterTxn_three ''cluster-a''
       (scripted [None, None, None, Some ''ERROR: deadlock detected''])
     = (Some ''ERROR: deadlock detected'',
        \<lparr> script = [],
          log = [Call BeginTx None,
                 Call (TxExec (DeleteWhere ''resources'' ''cluster'' ''cluster-a'')) None,
                 Call (TxExec (DeleteWhere ''edges'' ''cluster'' ''cluster-a'')) None,
                 Call (TxExec (DeleteWhere ''resources'' ''uid'' ''cluster__cluster-a''))
                   (Some ''ERROR: deadlock detected''),
                 Call TxRollback None,
                 Call TxCommit None],
          clustersCache = Mapping.empty \<rparr>)
   \<and> DeleteClusterTxn_three ''cluster-a'' (scripted [None, None, Some ''ERROR: deadlock detected''])
     = (Some ''ERROR: deadlock detected'',
        \<lparr> script = [],
          log = [Call BeginTx None,
                 Call (TxExec (DeleteWhere ''resources'' ''cluster'' ''cluster-a'')) None,
                 Call (TxExec (DeleteWhere ''edges'' ''cluster'' ''cluster-a''))
                   (Some ''ERROR: deadlock detected''),
                 Call TxRollback None],
          clustersCache = Mapping.empty \<rparr>)
   \<and> DeleteClusterResourcesTxn neverFails ''cluster-a''
       (scripted [None, None, Some ''ERROR: deadlock detected''])
     = (Some ''ERROR: deadlock detected'',
        \<lparr> script = [],
          log = [Call BeginTx None,
                 Call (TxExec (DeleteWhere ''resources'' ''cluster'' ''cluster-a'')) None,
                 Call (TxExec (DeleteWhere ''edges'' ''cluster'' ''cluster-a''))
                   (Some ''ERROR: deadlock detected''),
                 Call TxRollback None],
          clustersCache = Mapping.empty \<rparr>)"
  by (simp add: DeleteClusterTxn_three_def DeleteClusterResourcesTxn_def scripted_def invoke_def
      checkErrorAndRollback_def goquDelete_def neverFails_def)

section \<open>Properties of the cluster upsert\<close>







section \<open>Properties of cluster delete processing\<close>

lemma invoke_effect:
  assumes "invoke c w = (r, w')"
  shows "log w' = log w @ [Call c r]" and "clustersCache w' = clustersCache w"
    and "length (script w') \<le> length (script w)"
    and "r \<noteq> None \<Longrightarrow> length (script w') < length (script w)"
  using assms by (auto simp: invoke_def split: list.splits)

lemma failedCascades_simps:
  "failedCascades []"
  "failedCascades (evs @ evs') \<longleftrightarrow> failedCascades evs \<and> failedCascades evs'"
  "failedCascades [Sleep ms]"
  "failedCascades [Call BeginTx r]"
  "failedCascades [Call (TxExec s) r]"
  "failedCascades [Call TxRollback r]"
  "failedCascades [Call TxCommit (Some e)]"
  by (auto simp: failedCascades_def)

lemma failedNodeDeletes_simps:
  "failedNodeDeletes s []"
  "failedNodeDeletes s (evs @ evs') \<longleftrightarrow> failedNodeDeletes s evs \<and> failedNodeDeletes s evs'"
  "failedNodeDeletes s [Sleep ms]"
  "failedNodeDeletes s [Call (PoolExec s) (Some e)]"
  by (auto simp: failedNodeDeletes_def)

lemma DeleteClusterResourcesTxn_effect:
  assumes "\<forall>s. toSQL s = None" and "DeleteClusterResourcesTxn toSQL clusterName w = (r, w')"
  shows "clustersCache w' = clustersCache w"
    and "r = None \<Longrightarrow> log w' = log w @ committedCascade clusterName"
    and "length (script w') \<le> length (script w)"
    and "r \<noteq> None \<Longrightarrow> length (script w') < length (script w) \<and>
           (\<exists>evs. log w' = log w @ evs \<and> failedCascades evs)"
proof -
  obtain r1 w1 where i1: "invoke BeginTx w = (r1, w1)" by (metis prod.exhaust)
  obtain r2 w2 where i2: "invoke (TxExec (DeleteWhere ''resources'' ''cluster'' clusterName)) w1 = (r2, w2)"
    by (metis prod.exhaust)
  obtain r2' w2' where i2': "invoke TxRollback w2 = (r2', w2')" by (metis prod.exhaust)
  obtain r3 w3 where i3: "invoke (TxExec (DeleteWhere ''edges'' ''cluster'' clusterName)) w2 = (r3, w3)"
    by (metis prod.exhaust)
  obtain r3' w3' where i3': "invoke TxRollback w3 = (r3', w3')" by (metis prod.exhaust)
  obtain r4 w4 where i4: "invoke TxCommit w3 = (r4, w4)" by (metis prod.exhaust)
  obtain r4' w4' where i4': "invoke TxRollback w4 = (r4', w4')" by (metis prod.exhaust)
  note e1 = invoke_effect[OF i1] and e2 = invoke_effect[OF i2] and e2' = invoke_effect[OF i2']
    and e3 = invoke_effect[OF i3] and e3' = invoke_effect[OF i3'] and e4 = invoke_effect[OF i4]
    and e4' = invoke_effect[OF i4']
  consider (a) e where "r1 = Some e" "r = Some e" "w' = w1"
    | (b) e where "r1 = None" "r2 = Some e" "r = Some e" "w' = w2'"
    | (c) e where "r1 = None" "r2 = None" "r3 = Some e" "r = Some e" "w' = w3'"
    | (d) e where "r1 = None" "r2 = None" "r3 = None" "r4 = Some e" "r = Some e" "w' = w4'"
    | (f) "r1 = None" "r2 = None" "r3 = None" "r4 = None" "r = None" "w' = w4"
    using assms i1 i2 i2' i3 i3' i4 i4'
    by (cases r1; cases r2; cases r3; cases r4)
      (auto simp: DeleteClusterResourcesTxn_def goquDelete_def checkErrorAndRollback_def)
  then have "clustersCache w' = clustersCache w
      \<and> (r = None \<longrightarrow> log w' = log w @ committedCascade clusterName)
      \<and> length (script w') \<le> length (script w)
      \<and> (r \<noteq> None \<longrightarrow> length (script w') < length (script w) \<and>
           (\<exists>evs. log w' = log w @ evs \<and> failedCascades evs))"
  proof cases
    case a
    with e1 show ?thesis by (simp add: failedCascades_def)
  next
    case b
    with e1 e2 e2' show ?thesis by (simp add: failedCascades_def)
  next
    case c
    with e1 e2 e3 e3' show ?thesis by (simp add: failedCascades_def)
  next
    case d
    with e1 e2 e3 e4 e4' show ?thesis by (simp add: failedCascades_def)
  next
    case f
    with e1 e2 e3 e4 show ?thesis by (simp add: committedCascade_def)
  qed
  then show "clustersCache w' = clustersCache w"
    and "r = None \<Longrightarrow> log w' = log w @ committedCascade clusterName"
    and "length (script w') \<le> length (script w)"
    and "r \<noteq> None \<Longrightarrow> length (script w') < length (script w) \<and>
           (\<exists>evs. log w' = log w @ evs \<and> failedCascades evs)"
    by simp_all
qed

lemma time_Sleep_effect:
  "log (time_Sleep ms w) = log w @ [Sleep ms]" "clustersCache (time_Sleep ms w) = clustersCache w"
  "script (time_Sleep ms w) = script w"
  by (simp_all add: time_Sleep_def)

lemma cascade_loop_returns:
  assumes "\<forall>s. toSQL s = None"
  shows "length (script w) < fuel \<Longrightarrow>
    \<exists>w' pre. deleteWithRetry_loop fuel (DeleteClusterResourcesTxn toSQL) M clusterName retry w = Some w'
      \<and> clustersCache w' = clustersCache w \<and> length (script w') \<le> length (script w)
      \<and> log w' = log w @ pre @ committedCascade clusterName \<and> failedCascades pre"
proof (induction fuel arbitrary: retry w)
  case 0
  then show ?case by simp
next
  case (Suc fuel)
  obtain r w1 where a: "DeleteClusterResourcesTxn toSQL clusterName w = (r, w1)"
    by (metis prod.exhaust)
  note e = DeleteClusterResourcesTxn_effect[OF assms a]
  show ?case
  proof (cases r)
    case None
    with a e have "deleteWithRetry_loop (Suc fuel) (DeleteClusterResourcesTxn toSQL) M clusterName retry w = Some w1
      \<and> clustersCache w1 = clustersCache w \<and> length (script w1) \<le> length (script w)
      \<and> log w1 = log w @ [] @ committedCascade clusterName \<and> failedCascades []"
      by (simp add: failedCascades_simps)
    then show ?thesis by blast
  next
    case (Some err)
    let ?ms = "min (retry * 500) M"
    let ?w2 = "time_Sleep ?ms w1"
    from Some e(4) obtain evs where l: "length (script w1) < length (script w)"
      and evs: "log w1 = log w @ evs" "failedCascades evs"
      by auto
    from l Suc.prems have "length (script ?w2) < fuel" by (simp add: time_Sleep_effect)
    from Suc.IH[OF this, of "retry + 1"] obtain w' pre where
      run: "deleteWithRetry_loop fuel (DeleteClusterResourcesTxn toSQL) M clusterName (retry + 1) ?w2 = Some w'"
      and c: "clustersCache w' = clustersCache ?w2" and s: "length (script w') \<le> length (script ?w2)"
      and lg: "log w' = log ?w2 @ pre @ committedCascade clusterName" and f: "failedCascades pre"
      by blast
    from a Some run
    have "deleteWithRetry_loop (Suc fuel) (DeleteClusterResourcesTxn toSQL) M clusterName retry w = Some w'"
      by (simp add: Let_def)
    moreover from c e(1) have "clustersCache w' = clustersCache w" by (simp add: time_Sleep_effect)
    moreover from s l have "length (script w') \<le> length (script w)" by (simp add: time_Sleep_effect)
    moreover from lg evs have "log w' = log w @ (evs @ [Sleep ?ms] @ pre) @ committedCascade clusterName"
      by (simp add: time_Sleep_effect)
    moreover from evs(2) f have "failedCascades (evs @ [Sleep ?ms] @ pre)"
      by (auto simp: failedCascades_def)
    ultimately show ?thesis by blast
  qed
qed

lemma node_loop_returns:
  assumes "\<forall>s. toSQL s = None"
  shows "length (script w) < fuel \<Longrightarrow>
    \<exists>w' mid. deleteWithRetry_loop fuel (DeleteClusterTxn toSQL) M clusterUID retry w = Some w'
      \<and> clustersCache w' = clustersCache w \<and> length (script w') \<le> length (script w)
      \<and> log w' = log w @ mid @ [Call (PoolExec (DeleteWhere ''resources'' ''uid'' clusterUID)) None]
      \<and> failedNodeDeletes (DeleteWhere ''resources'' ''uid'' clusterUID) mid"
proof (induction fuel arbitrary: retry w)
  case 0
  then show ?case by simp
next
  case (Suc fuel)
  let ?s = "DeleteWhere ''resources'' ''uid'' clusterUID"
  obtain r w1 where i: "invoke (PoolExec ?s) w = (r, w1)"
    by (metis prod.exhaust)
  with assms have a: "DeleteClusterTxn toSQL clusterUID w = (r, w1)"
    by (simp add: DeleteClusterTxn_def goquDelete_def)
  note e = invoke_effect[OF i]
  show ?case
  proof (cases r)
    case None
    with a e have "deleteWithRetry_loop (Suc fuel) (DeleteClusterTxn toSQL) M clusterUID retry w = Some w1
      \<and> clustersCache w1 = clustersCache w \<and> length (script w1) \<le> length (script w)
      \<and> log w1 = log w @ [] @ [Call (PoolExec ?s) None] \<and> failedNodeDeletes ?s []"
      by (simp add: failedNodeDeletes_simps)
    then show ?thesis by blast
  next
    case (Some err)
    let ?ms = "min (retry * 500) M"
    let ?w2 = "time_Sleep ?ms w1"
    from Some e(4) have l: "length (script w1) < length (script w)" by simp
    with Suc.prems have "length (script ?w2) < fuel" by (simp add: time_Sleep_effect)
    from Suc.IH[OF this, of "retry + 1"] obtain w' mid where
      run: "deleteWithRetry_loop fuel (DeleteClusterTxn toSQL) M clusterUID (retry + 1) ?w2 = Some w'"
      and c: "clustersCache w' = clustersCache ?w2" and s: "length (script w') \<le> length (script ?w2)"
      and lg: "log w' = log ?w2 @ mid @ [Call (PoolExec ?s) None]" and f: "failedNodeDeletes ?s mid"
      by blast
    from a Some run
    have "deleteWithRetry_loop (Suc fuel) (DeleteClusterTxn toSQL) M clusterUID retry w = Some w'"
      by (simp add: Let_def)
    moreover from c e(2) have "clustersCache w' = clustersCache w" by (simp add: time_Sleep_effect)
    moreover from s l have "length (script w') \<le> length (script w)" by (simp add: time_Sleep_effect)
    moreover from lg e(1) Some
    have "log w' = log w @ ([Call (PoolExec ?s) (Some err), Sleep ?ms] @ mid) @ [Call (PoolExec ?s) None]"
      by (simp add: time_Sleep_effect)
    moreover from f have "failedNodeDeletes ?s ([Call (PoolExec ?s) (Some err), Sleep ?ms] @ mid)"
      by (auto simp: failedNodeDeletes_def)
    ultimately show ?thesis by blast
  qed
qed

lemma DeleteClusterAndResources_returns:
  assumes "\<forall>s. toSQL s = None" and "length (script w) < fuel"
  shows "\<exists>w' pre mid. DeleteClusterAndResources fuel toSQL M clusterName deleteClusterNode w = Some w'
      \<and> failedCascades pre
      \<and> failedNodeDeletes (DeleteWhere ''resources'' ''uid'' (''cluster__'' @ clusterName)) mid
      \<and> (if deleteClusterNode
          then log w' = log w @ pre @ committedCascade clusterName @ mid
                 @ [Call (PoolExec (DeleteWhere ''resources'' ''uid'' (''cluster__'' @ clusterName))) None]
             \<and> clustersCache w' = DeleteClustersCache (''cluster__'' @ clusterName) (clustersCache w)
          else log w' = log w @ pre @ committedCascade clusterName
             \<and> clustersCache w' = clustersCache w)"
proof -
  let ?uid = "''cluster__'' @ clusterName"
  from cascade_loop_returns[OF assms(1) assms(2), of M clusterName 0] obtain w1 pre where
    r1: "deleteWithRetry_loop fuel (DeleteClusterResourcesTxn toSQL) M clusterName 0 w = Some w1"
    and c1: "clustersCache w1 = clustersCache w" and s1: "length (script w1) \<le> length (script w)"
    and l1: "log w1 = log w @ pre @ committedCascade clusterName" and f1: "failedCascades pre"
    by blast
  show ?thesis
  proof (cases deleteClusterNode)
    case False
    with r1 have "DeleteClusterAndResources fuel toSQL M clusterName deleteClusterNode w = Some w1"
      by (simp add: DeleteClusterAndResources_def deleteWithRetry_def)
    with False c1 l1 f1 failedNodeDeletes_simps(1)[of "DeleteWhere ''resources'' ''uid'' ?uid"]
    show ?thesis by auto
  next
    case True
    from s1 assms(2) have "length (script w1) < fuel" by simp
    from node_loop_returns[OF assms(1) this, of M ?uid 0] obtain w2 mid where
      r2: "deleteWithRetry_loop fuel (DeleteClusterTxn toSQL) M ?uid 0 w1 = Some w2"
      and c2: "clustersCache w2 = clustersCache w1"
      and l2: "log w2 = log w1 @ mid @ [Call (PoolExec (DeleteWhere ''resources'' ''uid'' ?uid)) None]"
      and f2: "failedNodeDeletes (DeleteWhere ''resources'' ''uid'' ?uid) mid"
      by blast
    let ?w' = "w2\<lparr> clustersCache := DeleteClustersCache ?uid (clustersCache w2) \<rparr>"
    from True r1 r2
    have "DeleteClusterAndResources fuel toSQL M clusterName deleteClusterNode w = Some ?w'"
      by (simp add: DeleteClusterAndResources_def deleteWithRetry_def)
    moreover from l1 l2 have "log ?w' = log w @ pre @ committedCascade clusterName @ mid
          @ [Call (PoolExec (DeleteWhere ''resources'' ''uid'' ?uid)) None]"
      by simp
    moreover from c1 c2 have "clustersCache ?w' = DeleteClustersCache ?uid (clustersCache w)"
      by simp
    ultimately show ?thesis using True f1 f2 by auto
  qed
qed

text \<open>
  C8. Cluster delete processing, with goqu building every statement and the database
  failing only finitely often, returns, and what it has done depends on the object's kind.
  For a \<open>ManagedCluster\<close> it has cascade-deleted the resources and edges of the cluster
  named by the object (after the failed attempts, one committed transaction with the two
  statements), then deleted the row \<open>cluster__{name}\<close> with a statement on the pool
  (retried until it succeeded), and evicted the cache entry \<open>cluster__{name}\<close>. For a
  \<open>ManagedClusterAddOn\<close> named \<open>search-collector\<close> it has cascade-deleted the resources
  and edges of the cluster named by the object's namespace, sent no statement on the
  pool, and left the cache as it was. For every other object, a \<open>ManagedClusterInfo\<close>
  among them, it has done nothing.
\<close>

theorem processClusterDelete_by_kind:
  assumes "\<forall>s. toSQL s = None" and "length (script w) < fuel"
  shows "\<exists>w' pre mid. processClusterDelete fuel toSQL M obj w = Some w'
     \<and> failedCascades pre
     \<and> failedNodeDeletes (DeleteWhere ''resources'' ''uid'' (''cluster__'' @ GetName obj)) mid
     \<and> (if GetKind obj = ''ManagedCluster'' then
          log w' = log w @ pre @ committedCascade (GetName obj) @ mid
             @ [Call (PoolExec (DeleteWhere ''resources'' ''uid'' (''cluster__'' @ GetName obj))) None]
          \<and> clustersCache w' = DeleteClustersCache (''cluster__'' @ GetName obj) (clustersCache w)
          \<and> ReadClustersCache (''cluster__'' @ GetName obj) (clustersCache w') = None
        else if GetKind obj = ''ManagedClusterAddOn'' \<and> GetName obj = ''search-collector'' then
          log w' = log w @ pre @ committedCascade (GetNamespace obj)
          \<and> clustersCache w' = clustersCache w
        else w' = w)"
proof -
  let ?node = "DeleteWhere ''resources'' ''uid'' (''cluster__'' @ GetName obj)"
  consider (mc) "GetKind obj = ''ManagedCluster''"
    | (addon) "GetKind obj \<noteq> ''ManagedCluster''"
        "GetKind obj = ''ManagedClusterAddOn'' \<and> GetName obj = ''search-collector''"
    | (other) "GetKind obj \<noteq> ''ManagedCluster''"
        "\<not> (GetKind obj = ''ManagedClusterAddOn'' \<and> GetName obj = ''search-collector'')"
    by blast
  then show ?thesis
  proof cases
    case mc
    from DeleteClusterAndResources_returns[OF assms, of M "GetName obj" True]
    obtain w' pre mid where
      "DeleteClusterAndResources fuel toSQL M (GetName obj) True w = Some w'"
      "failedCascades pre" "failedNodeDeletes ?node mid"
      "log w' = log w @ pre @ committedCascade (GetName obj) @ mid @ [Call (PoolExec ?node) None]"
      "clustersCache w' = DeleteClustersCache (''cluster__'' @ GetName obj) (clustersCache w)"
      by auto
    with mc have "processClusterDelete fuel toSQL M obj w = Some w'
      \<and> failedCascades pre \<and> failedNodeDeletes ?node mid
      \<and> log w' = log w @ pre @ committedCascade (GetName obj) @ mid @ [Call (PoolExec ?node) None]
      \<and> clustersCache w' = DeleteClustersCache (''cluster__'' @ GetName obj) (clustersCache w)
      \<and> ReadClustersCache (''cluster__'' @ GetName obj) (clustersCache w') = None"
      by (simp add: processClusterDelete_def DeleteClustersCache_def ReadClustersCache_def)
    with mc show ?thesis by auto
  next
    case addon
    from DeleteClusterAndResources_returns[OF assms, of M "GetNamespace obj" False]
    obtain w' pre where
      "DeleteClusterAndResources fuel toSQL M (GetNamespace obj) False w = Some w'"
      "failedCascades pre"
      "log w' = log w @ pre @ committedCascade (GetNamespace obj)"
      "clustersCache w' = clustersCache w"
      by auto
    with addon have "processClusterDelete fuel toSQL M obj w = Some w'
      \<and> failedCascades pre \<and> failedNodeDeletes ?node []
      \<and> log w' = log w @ pre @ committedCascade (GetNamespace obj)
      \<and> clustersCache w' = clustersCache w"
      by (simp add: processClusterDelete_def failedNodeDeletes_simps)
    with addon show ?thesis by auto
  next
    case other
    then have "processClusterDelete fuel toSQL M obj w = Some w
      \<and> failedCascades [] \<and> failedNodeDeletes ?node []"
      by (auto simp: processClusterDelete_def failedNodeDeletes_simps failedCascades_simps)
    with other show ?thesis by auto
  qed
qed

theorem processClusterDelete_by_kind_witness:
  "(\<forall>s. neverFails s = None)
   \<and> length (script (fooInCache [Some ''ERROR: connection reset''])) < 2
   \<and> ReadClustersCache ''cluster__name-foo''
        (clustersCache (fooInCache [Some ''ERROR: connection reset''])) = Some ()
   \<and> (\<exists>w'. processClusterDelete 2 neverFails 300000 managedCluster
               (fooInCache [Some ''ERROR: connection reset'']) = Some w'
         \<and> log w' = [Call BeginTx (Some ''ERROR: connection reset''), Sleep 0]
               @ committedCascade ''name-foo''
               @ [Call (PoolExec (DeleteWhere ''resources'' ''uid'' ''cluster__name-foo'')) None]
         \<and> ReadClustersCache ''cluster__name-foo'' (clustersCache w') = None)
   \<and> (\<exists>w'. processClusterDelete 2 neverFails 300000 searchCollectorAddOn
               (fooInCache [Some ''ERROR: connection reset'']) = Some w'
         \<and> log w' = [Call BeginTx (Some ''ERROR: connection reset''), Sleep 0]
               @ committedCascade ''name-foo''
         \<and> ReadClustersCache ''cluster__name-foo'' (clustersCache w') = Some ())
   \<and> processClusterDelete 2 neverFails 300000 managedClusterInfo
        (fooInCache [Some ''ERROR: connection reset''])
       = Some (fooInCache [Some ''ERROR: connection reset''])"
proof -
  let ?w = "fooInCache [Some ''ERROR: connection reset'']"
  have n: "\<forall>s. neverFails s = None" by (simp add: neverFails_def)
  have f: "length (script ?w) < 2" by (simp add: fooInCache_def)
  have c: "ReadClustersCache ''cluster__name-foo'' (clustersCache ?w) = Some ()"
    by (simp add: fooInCache_def ReadClustersCache_def)
  have k: "GetKind managedCluster = ''ManagedCluster''" "GetName managedCluster = ''name-foo''"
    "GetKind searchCollectorAddOn = ''ManagedClusterAddOn''"
    "GetName searchCollectorAddOn = ''search-collector''"
    "GetNamespace searchCollectorAddOn = ''name-foo''"
    "GetKind managedClusterInfo = ''ManagedClusterInfo''"
    by (simp_all add: managedCluster_def searchCollectorAddOn_def managedClusterInfo_def)
  have l1: "map_option log (processClusterDelete 2 neverFails 300000 managedCluster ?w)
      = Some ([Call BeginTx (Some ''ERROR: connection reset''), Sleep 0]
               @ committedCascade ''name-foo''
               @ [Call (PoolExec (DeleteWhere ''resources'' ''uid'' ''cluster__name-foo'')) None])"
    by (simp add: processClusterDelete_def DeleteClusterAndResources_def deleteWithRetry_def
        DeleteClusterResourcesTxn_def DeleteClusterTxn_def goquDelete_def neverFails_def
        invoke_def checkErrorAndRollback_def time_Sleep_def fooInCache_def committedCascade_def
        managedCluster_def numeral_2_eq_2 Let_def)
  have l2: "map_option log (processClusterDelete 2 neverFails 300000 searchCollectorAddOn ?w)
      = Some ([Call BeginTx (Some ''ERROR: connection reset''), Sleep 0]
               @ committedCascade ''name-foo'')"
    by (simp add: processClusterDelete_def DeleteClusterAndResources_def deleteWithRetry_def
        DeleteClusterResourcesTxn_def DeleteClusterTxn_def goquDelete_def neverFails_def
        invoke_def checkErrorAndRollback_def time_Sleep_def fooInCache_def committedCascade_def
        searchCollectorAddOn_def numeral_2_eq_2 Let_def)
  from processClusterDelete_by_kind[OF n f, of 300000 managedCluster] k c l1
  have w1: "\<exists>w'. processClusterDelete 2 neverFails 300000 managedCluster ?w = Some w'
         \<and> log w' = [Call BeginTx (Some ''ERROR: connection reset''), Sleep 0]
               @ committedCascade ''name-foo''
               @ [Call (PoolExec (DeleteWhere ''resources'' ''uid'' ''cluster__name-foo'')) None]
         \<and> ReadClustersCache ''cluster__name-foo'' (clustersCache w') = None"
    by auto
  from processClusterDelete_by_kind[OF n f, of 300000 searchCollectorAddOn] k c l2
  have w2: "\<exists>w'. processClusterDelete 2 neverFails 300000 searchCollectorAddOn ?w = Some w'
         \<and> log w' = [Call BeginTx (Some ''ERROR: connection reset''), Sleep 0]
               @ committedCascade ''name-foo''
         \<and> ReadClustersCache ''cluster__name-foo'' (clustersCache w') = Some ()"
    by auto
  from processClusterDelete_by_kind[OF n f, of 300000 managedClusterInfo] k
  have w3: "processClusterDelete 2 neverFails 300000 managedClusterInfo ?w = Some ?w"
    by auto
  from n f c w1 w2 w3 show ?thesis by blast
qed
end
